theory Spec2Isabelle
  imports Main "HOL-Library.Char_ord" "HOL-Library.List_Lexorder" "HOL-Library.Product_Lexorder"
begin

section \<open>Strings and errors\<close>

text \<open>
  Go strings are byte sequences; they are modelled as \<^typ>\<open>string\<close>. An \<open>error\<close> value
  built with \<open>errors.New\<close> or \<open>fmt.Errorf\<close> carries its message. A run-time panic
  (index out of range) is a value of its own, so that it is a branch of the model, and so
  are the failures \<open>ImmutableFieldChanged\<close> of the changeset engine and
  \<open>KeyMismatch\<close> of the parameter store, with the item or key they were raised for.
\<close>

datatype error =
    errors_New string
  | runtime_panic string
  | ImmutableFieldChanged string
  | KeyMismatch string

text \<open>
  \<open>strings.ToLower\<close> on the ASCII letters: the bytes \<open>A\<close> to \<open>Z\<close> are moved to
  \<open>a\<close> to \<open>z\<close>, every other byte is kept. (On text outside ASCII Go maps each rune with
  the Unicode tables; the kind tokens, \<open>/\<close> and \<open>,\<close> the program looks for are ASCII.)
\<close>

definition lower_byte :: "char \<Rightarrow> char" where
  "lower_byte c =
     (if CHR ''A'' \<le> c \<and> c \<le> CHR ''Z'' then char_of (of_char c + (32::nat)) else c)"

definition ToLower :: "string \<Rightarrow> string" where
  "ToLower s = map lower_byte s"

text \<open>\<open>strings.Contains(s, sep)\<close> for a separator of one byte.\<close>

definition Contains :: "string \<Rightarrow> char \<Rightarrow> bool" where
  "Contains s c = (c \<in> set s)"

text \<open>
  \<open>strings.Split(s, sep)\<close> for a separator of one byte: the pieces between the
  separators, in order; a string with no separator (the empty string too) is one piece.
\<close>

fun Split :: "string \<Rightarrow> char \<Rightarrow> string list" where
  "Split [] c = [[]]"
| "Split (x # xs) c =
     (if x = c then [] # Split xs c
      else (case Split xs c of [] \<Rightarrow> [[x]] | p # ps \<Rightarrow> (x # p) # ps))"

text \<open>\<open>strings.Join(parts, sep)\<close>.\<close>

fun Join :: "string list \<Rightarrow> string \<Rightarrow> string" where
  "Join [] sep = []"
| "Join [p] sep = p"
| "Join (p # q # ps) sep = p @ sep @ Join (q # ps) sep"

section \<open>The kind table and \<open>getFilter\<close> (main.go)\<close>

text \<open>The package-level map \<open>kindMapping\<close>, entry by entry.\<close>

definition kindMapping_entries :: "(string \<times> string) list" where
  "kindMapping_entries =
     [(''svc'', ''Service''),
      (''service'', ''Service''),
      (''route'', ''Route''),
      (''dc'', ''DeploymentConfig''),
      (''deploymentconfig'', ''DeploymentConfig''),
      (''bc'', ''BuildConfig''),
      (''buildconfig'', ''BuildConfig''),
      (''is'', ''ImageStream''),
      (''imagestream'', ''ImageStream''),
      (''pvc'', ''PersistentVolumeClaim''),
      (''persistentvolumeclaim'', ''PersistentVolumeClaim''),
      (''template'', ''Template''),
      (''cm'', ''ConfigMap''),
      (''configmap'', ''ConfigMap''),
      (''secret'', ''Secret''),
      (''rolebinding'', ''RoleBinding''),
      (''serviceaccount'', ''ServiceAccount'')]"

definition kindMapping :: "string \<rightharpoonup> string" where
  "kindMapping = map_of kindMapping_entries"

text \<open>Reading \<open>kindMapping[k]\<close> as a value: a missing key reads as the empty string.\<close>

definition kindMapping_at :: "string \<Rightarrow> string" where
  "kindMapping_at k = (case kindMapping k of None \<Rightarrow> [] | Some v \<Rightarrow> v)"

record ResourceFilter =
  Kinds :: "string list"
  Name :: string
  Label :: string

text \<open>
  The loop over the comma-separated tokens: the tokens missing from the table, in order
  (\<open>unknownKinds\<close>), and the canonical kinds of the others (the keys of
  \<open>targetedKinds\<close>).
\<close>

definition unknownKinds :: "string list \<Rightarrow> string list" where
  "unknownKinds kinds = filter (\<lambda>kind. kindMapping kind = None) kinds"

definition targetedKinds :: "string list \<Rightarrow> string list" where
  "targetedKinds kinds =
     remdups (map kindMapping_at (filter (\<lambda>kind. kindMapping kind \<noteq> None) kinds))"

text \<open>
  \<open>getFilter\<close>. The keys of the Go map \<open>targetedKinds\<close> are appended in the map's
  iteration order and then sorted by \<open>sort.Strings\<close>, so the result is the sorted list
  of the distinct kinds. \<open>nameParts[1]\<close> exists whenever the argument holds a \<open>/\<close>;
  the model keeps the out-of-range read as a panic all the same.
\<close>

definition getFilter :: "string \<Rightarrow> string \<Rightarrow> error + ResourceFilter" where
  "getFilter kindArg selectorFlag =
     (let filter0 = \<lparr>Kinds = [], Name = [], Label = selectorFlag\<rparr> in
      if length kindArg = 0 then Inr filter0
      else
        let kindArg' = ToLower kindArg in
        if Contains kindArg' CHR ''/'' then
          (if Contains kindArg' CHR '','' then
             Inl (errors_New ''You cannot target more than one resource name'')
           else
             (case Split kindArg' CHR ''/'' of
                p0 # p1 # _ \<Rightarrow> Inr (filter0\<lparr>Name := kindMapping_at p0 @ ''/'' @ p1\<rparr>)
              | _ \<Rightarrow> Inl (runtime_panic ''index out of range'')))
        else
          let kinds = Split kindArg' CHR '','' in
          if length (unknownKinds kinds) > 0 then
            Inl (errors_New (''Unknown resource kinds: '' @ Join (unknownKinds kinds) '',''))
          else Inr (filter0\<lparr>Kinds := sort (targetedKinds kinds)\<rparr>))"

section \<open>Resources and changesets (package openshift)\<close>

text \<open>
  The package \<open>openshift\<close> is used by the commands and is not among the sources. Its
  data model and \<open>NewChangeset\<close> follow sections 3, 4.1, 4.3 and 6 of the
  specification.
\<close>

text \<open>Modelled from the spec: the payload, a tree of scalars, mappings and sequences.\<close>

datatype tree = Scalar string | Mapping "(string \<times> tree) list" | Sequence "tree list"

text \<open>Modelled from the spec: the provenance tag of a resource.\<close>

datatype provenance = desired | current

text \<open>
  Modelled from the spec: the record \<open>Resource\<close> of section 3 (its type is declared in
  the absent package). The field \<open>Name\<close> is \<open>ResourceName\<close> here, \<open>Name\<close> being
  a field of the filter.
\<close>

record resource =
  Kind :: string
  ResourceName :: string
  Labels :: "(string \<times> string) list"
  Annotations :: "(string \<times> string) list"
  Payload :: tree
  Source :: provenance

text \<open>
  Modelled from the spec: a resource list, in the order the adapter gave. \<open>Length()\<close>
  is its length. The filter that travels with the list is read by none of the functions
  below and is left out.
\<close>

type_synonym ResourceList = "resource list"

text \<open>Modelled from the spec: the identity \<open>(Kind, Name)\<close> of a resource.\<close>

definition identity :: "resource \<Rightarrow> string \<times> string" where
  "identity r = (Kind r, ResourceName r)"

text \<open>Modelled from the spec: the operations of a JSON patch that the structural diff emits.\<close>

datatype patch_op = Add string tree | Remove string | Replace string tree

text \<open>Modelled from the spec: the target path of an operation.\<close>

fun path :: "patch_op \<Rightarrow> string" where
  "path (Add p v) = p"
| "path (Remove p) = p"
| "path (Replace p v) = p"

text \<open>Modelled from the spec: the action of a change.\<close>

datatype action = ActionNoop | ActionCreate | ActionUpdate | ActionDelete | ActionRecreate

text \<open>
  Modelled from the spec: the record \<open>Change\<close>. The rendered diff is not a field here:
  the commands ask a change for it when they print, with the flag \<open>revealSecrets\<close>
  that \<open>NewChangeset\<close> never receives.
\<close>

record change =
  Action :: action
  Current :: "resource option"
  Desired :: "resource option"
  Patches :: "patch_op list"

text \<open>Modelled from the spec: the buckets of a changeset.\<close>

record changeset =
  Noop :: "change list"
  Create :: "change list"
  Update :: "change list"
  Delete :: "change list"
  Recreate :: "change list"

text \<open>The Go value \<open>&openshift.Changeset{}\<close>: every bucket empty.\<close>

definition empty_Changeset :: changeset where
  "empty_Changeset = \<lparr>Noop = [], Create = [], Update = [], Delete = [], Recreate = []\<rparr>"

text \<open>
  Modelled from the spec: \<open>Changeset.Blank()\<close>, absent from the sources, is true iff all
  mutation buckets are empty.
\<close>

definition Blank :: "changeset \<Rightarrow> bool" where
  "Blank c = (Create c = [] \<and> Update c = [] \<and> Delete c = [] \<and> Recreate c = [])"

text \<open>
  Modelled from the spec: the resource a change is about, the desired side when there is
  one, else the current side.
\<close>

definition item :: "change \<Rightarrow> resource option" where
  "item c = (case Desired c of Some r \<Rightarrow> Some r | None \<Rightarrow> Current c)"

text \<open>Modelled from the spec: the identity of the resource a change is about.\<close>

definition change_identity :: "change \<Rightarrow> string \<times> string" where
  "change_identity c = (case item c of Some r \<Rightarrow> identity r | None \<Rightarrow> ([], []))"

text \<open>
  Modelled from the spec: \<open>Change.ItemName()\<close>, absent from the sources, the address
  \<open>Kind/Name\<close> of the item.
\<close>

definition ItemName :: "change \<Rightarrow> string" where
  "ItemName c = fst (change_identity c) @ ''/'' @ snd (change_identity c)"

text \<open>
  Modelled from the spec: step 5 of section 4.1, mapping keys sorted at every level
  (a stable sort on the key, by bytes).
\<close>

fun canon :: "tree \<Rightarrow> tree" where
  "canon (Scalar s) = Scalar s"
| "canon (Mapping kvs) = Mapping (sort_key fst (map (\<lambda>kv. (fst kv, canon (snd kv))) kvs))"
| "canon (Sequence ts) = Sequence (map canon ts)"

text \<open>
  Modelled from the spec: the patch list of step 4a of section 4.3. Both payloads are
  canonicalized; equal canonical payloads are equal resources and give no operation,
  unequal ones are handed to the structural diff. The spec names what the structural
  diff emits and not how it walks sequences, so it is the parameter \<open>structuralDiff\<close>.
\<close>

definition patches :: "(tree \<Rightarrow> tree \<Rightarrow> patch_op list) \<Rightarrow> resource \<Rightarrow> resource \<Rightarrow> patch_op list" where
  "patches structuralDiff cur des =
     (let a = canon (Payload cur); b = canon (Payload des)
      in if a = b then [] else structuralDiff a b)"

text \<open>
  Modelled from the spec: a path matches a pointer when it is the pointer, or starts with
  the pointer followed by \<open>/\<close>.
\<close>

definition pathMatches :: "string \<Rightarrow> string \<Rightarrow> bool" where
  "pathMatches pointer p =
     (p = pointer \<or> take (length (pointer @ ''/'')) p = pointer @ ''/'')"

text \<open>
  Modelled from the spec: a preserve entry is \<open>Kind:Name:/json/pointer\<close>, with \<open>*\<close>
  for any kind or any name, or a bare pointer, which holds for every resource. The kind
  may be written as in the kind table (scenario S4 writes \<open>bc\<close> for
  \<open>BuildConfig\<close>).
\<close>

definition preserveEntry :: "string \<Rightarrow> string \<times> string \<times> string" where
  "preserveEntry e =
     (if e \<noteq> [] \<and> hd e \<noteq> CHR ''/'' then
        (case Split e CHR '':'' of
           k # n # p # ps \<Rightarrow> (k, n, Join (p # ps) '':'')
         | _ \<Rightarrow> (''*'', ''*'', e))
      else (''*'', ''*'', e))"

text \<open>
  Modelled from the spec: step 4b, an operation is dropped when its path matches the
  pointer of a preserve entry that holds for the resource.
\<close>

definition preserved :: "string list \<Rightarrow> resource \<Rightarrow> patch_op \<Rightarrow> bool" where
  "preserved preservePaths r operation =
     list_ex (\<lambda>e. case preserveEntry e of (k, n, pointer) \<Rightarrow>
                (k = ''*'' \<or> k = Kind r \<or> kindMapping (ToLower k) = Some (Kind r))
                \<and> (n = ''*'' \<or> n = ResourceName r)
                \<and> pathMatches pointer (path operation))
       preservePaths"

text \<open>Modelled from the spec: the immutable path table of section 6.\<close>

definition immutablePaths :: "string \<Rightarrow> string list" where
  "immutablePaths kind =
     (if kind = ''DeploymentConfig'' then
        [''/spec/selector'', ''/spec/triggers/*/imageChangeParams/from'']
      else if kind = ''Service'' then [''/spec/clusterIP'']
      else if kind = ''PersistentVolumeClaim'' then [''/spec'']
      else if kind = ''Route'' then [''/spec/host'']
      else if kind = ''BuildConfig'' then [''/spec/source/type'']
      else [])"

text \<open>
  Modelled from the spec: an operation targets an immutable path when its path is that
  path or lies below it, segment by segment, \<open>*\<close> standing for any one segment.
\<close>

fun segmentsMatch :: "string list \<Rightarrow> string list \<Rightarrow> bool" where
  "segmentsMatch [] ps = True"
| "segmentsMatch (q # qs) [] = False"
| "segmentsMatch (q # qs) (p # ps) = ((q = ''*'' \<or> q = p) \<and> segmentsMatch qs ps)"

text \<open>Modelled from the spec: step 4d, an operation on an immutable path of the kind.\<close>

definition targetsImmutable :: "string \<Rightarrow> patch_op \<Rightarrow> bool" where
  "targetsImmutable kind operation =
     list_ex (\<lambda>immutable. segmentsMatch (Split immutable CHR ''/'') (Split (path operation) CHR ''/''))
       (immutablePaths kind)"

text \<open>
  Modelled from the spec: steps 4a to 4e of section 4.3 for one identity present on both
  sides.
\<close>

definition classify ::
  "(tree \<Rightarrow> tree \<Rightarrow> patch_op list) \<Rightarrow> bool \<Rightarrow> string list \<Rightarrow> resource \<Rightarrow> resource \<Rightarrow> error + change" where
  "classify structuralDiff allowRecreate preservePaths cur des =
     (let P = filter (\<lambda>operation. \<not> preserved preservePaths cur operation)
                (patches structuralDiff cur des);
          both = \<lparr>Action = ActionNoop, Current = Some cur, Desired = Some des, Patches = P\<rparr>
      in if P = [] then Inr both
         else if list_ex (targetsImmutable (Kind cur)) P then
           (if allowRecreate then Inr (both\<lparr>Action := ActionRecreate\<rparr>)
            else Inl (ImmutableFieldChanged (Kind cur @ ''/'' @ ResourceName cur)))
         else Inr (both\<lparr>Action := ActionUpdate\<rparr>))"

text \<open>
  Modelled from the spec: step 4 over all identities present on both sides; the first
  failure is the failure of the whole.
\<close>

fun classifyAll ::
  "(tree \<Rightarrow> tree \<Rightarrow> patch_op list) \<Rightarrow> bool \<Rightarrow> string list \<Rightarrow> (resource \<times> resource) list
     \<Rightarrow> error + change list" where
  "classifyAll structuralDiff allowRecreate preservePaths [] = Inr []"
| "classifyAll structuralDiff allowRecreate preservePaths ((cur, des) # rest) =
     (case classify structuralDiff allowRecreate preservePaths cur des of
        Inl err \<Rightarrow> Inl err
      | Inr c \<Rightarrow>
          (case classifyAll structuralDiff allowRecreate preservePaths rest of
             Inl err \<Rightarrow> Inl err
           | Inr cs \<Rightarrow> Inr (c # cs)))"

text \<open>Modelled from the spec: step 5, a bucket sorted by kind, then name.\<close>

definition sortBucket :: "change list \<Rightarrow> change list" where
  "sortBucket cs = sort_key change_identity cs"

text \<open>
  Modelled from the spec: the identities present on both sides (the intersection of step
  4), each current resource with the desired resource of the same identity.
\<close>

definition bothSides :: "ResourceList \<Rightarrow> ResourceList \<Rightarrow> (resource \<times> resource) list" where
  "bothSides currentList desiredList =
     concat (map (\<lambda>cur. case find (\<lambda>des. identity des = identity cur) desiredList of
                          None \<Rightarrow> [] | Some des \<Rightarrow> [(cur, des)]) currentList)"

text \<open>
  Modelled from the spec: \<open>openshift.NewChangeset\<close>, absent from the sources, steps 1 to
  5 of section 4.3. It fails with \<open>ImmutableFieldChanged\<close> or gives the changeset.
\<close>

definition NewChangeset ::
  "(tree \<Rightarrow> tree \<Rightarrow> patch_op list) \<Rightarrow> ResourceList \<Rightarrow> ResourceList \<Rightarrow> bool \<Rightarrow> bool \<Rightarrow> string list
     \<Rightarrow> error + changeset" where
  "NewChangeset structuralDiff currentList desiredList upsertOnly allowRecreate preservePaths =
     (let C = map identity currentList;
          D = map identity desiredList;
          createSet = filter (\<lambda>r. identity r \<notin> set C) desiredList;
          deleteSet = (if \<not> upsertOnly then filter (\<lambda>r. identity r \<notin> set D) currentList else [])
      in case classifyAll structuralDiff allowRecreate preservePaths
                (bothSides currentList desiredList) of
           Inl err \<Rightarrow> Inl err
         | Inr cs \<Rightarrow>
             Inr \<lparr>Noop = sortBucket (filter (\<lambda>c. Action c = ActionNoop) cs),
                  Create = sortBucket (map (\<lambda>r. \<lparr>Action = ActionCreate, Current = None,
                                                  Desired = Some r, Patches = []\<rparr>) createSet),
                  Update = sortBucket (filter (\<lambda>c. Action c = ActionUpdate) cs),
                  Delete = sortBucket (map (\<lambda>r. \<lparr>Action = ActionDelete, Current = Some r,
                                                  Desired = None, Patches = []\<rparr>) deleteSet),
                  Recreate = sortBucket (filter (\<lambda>c. Action c = ActionRecreate) cs)\<rparr>)"

section \<open>The diff command (package commands)\<close>

text \<open>
  What a command writes and does, in order: a line printed plainly or through one of the
  colour printers of package \<open>cli\<close>, the diff of a change printed with the flag
  \<open>revealSecrets\<close> (its text is rendered by the absent \<open>Change.Diff\<close>), a line
  logged by \<open>log.Fatalln\<close> (its leading text and the error), the question of
  \<open>cli.AskForConfirmation\<close>, and the call of \<open>openshift.UpdateRemote\<close>.
\<close>

datatype event =
    Printf string
  | PrintGreenf string
  | PrintYellowf string
  | PrintRedf string
  | PrintDiff change bool
  | Fatalln string error
  | AskedForConfirmation string
  | UpdateRemote changeset

text \<open>The verb \<open>%d\<close> on a length: the decimal digits.\<close>

fun decimal :: "nat \<Rightarrow> string" where
  "decimal n =
     (if n < 10 then [char_of (48 + n)]
      else decimal (n div 10) @ [char_of (48 + n mod 10)])"

declare decimal.simps [simp del]

text \<open>
  What \<open>compare\<close> prints for a changeset: the items in sync, to delete, to create and
  to update, in this order, then the summary.
\<close>

definition printedLines :: "changeset \<Rightarrow> bool \<Rightarrow> event list" where
  "printedLines cs revealSecrets =
     map (\<lambda>c. Printf (''* '' @ ItemName c @ '' is in sync\<newline>'')) (Noop cs)
     @ concat (map (\<lambda>c. [PrintRedf (''- '' @ ItemName c @ '' to delete\<newline>''),
                          PrintDiff c revealSecrets]) (Delete cs))
     @ concat (map (\<lambda>c. [PrintGreenf (''+ '' @ ItemName c @ '' to create\<newline>''),
                          PrintDiff c revealSecrets]) (Create cs))
     @ concat (map (\<lambda>c. [PrintYellowf (''~ '' @ ItemName c @ '' to update\<newline>''),
                          PrintDiff c revealSecrets]) (Update cs))
     @ [Printf (''\<newline>Summary: '' @ decimal (length (Noop cs)) @ '' in sync, ''),
        PrintGreenf (decimal (length (Create cs)) @ '' to create''),
        Printf '', '',
        PrintYellowf (decimal (length (Update cs)) @ '' to update''),
        Printf '', '',
        PrintRedf (decimal (length (Delete cs)) @ '' to delete\<newline>\<newline>'')]"

text \<open>\<open>compare\<close>: nothing is printed when \<open>NewChangeset\<close> fails.\<close>

definition compare ::
  "(tree \<Rightarrow> tree \<Rightarrow> patch_op list) \<Rightarrow> ResourceList \<Rightarrow> ResourceList \<Rightarrow> bool \<Rightarrow> bool \<Rightarrow> bool
     \<Rightarrow> string list \<Rightarrow> event list \<times> (error + changeset)" where
  "compare structuralDiff remoteResourceList localResourceList upsertOnly allowRecreate
       revealSecrets preservePaths =
     (case NewChangeset structuralDiff remoteResourceList localResourceList upsertOnly
             allowRecreate preservePaths of
        Inl err \<Rightarrow> ([], Inl err)
      | Inr cs \<Rightarrow> (printedLines cs revealSecrets, Inr cs))"

text \<open>The fields of \<open>cli.CompareOptions\<close> that the diff command reads.\<close>

record CompareOptions =
  Namespace :: string
  Selector :: string
  Exclude :: string
  TemplateDir :: string
  Resource :: string
  UpsertOnly :: bool
  AllowRecreate :: bool
  RevealSecrets :: bool
  Force :: bool
  PathsToPreserve :: "string list"

text \<open>
  What \<open>calculateChangeset\<close> gets from outside the sources: the filter built by
  \<open>openshift.NewResourceFilter\<close>, the two inventories as
  \<open>assembleTemplateBasedResourceList\<close> and \<open>assemblePlatformBasedResourceList\<close>
  return them (they read the template directory, run \<open>oc\<close> through the client and
  decode its answer), and the structural diff that \<open>NewChangeset\<close> uses.
\<close>

record platform =
  StructuralDiff :: "tree \<Rightarrow> tree \<Rightarrow> patch_op list"
  NewResourceFilter :: "string \<Rightarrow> string \<Rightarrow> string \<Rightarrow> error + ResourceFilter"
  assembleTemplateBasedResourceList :: "ResourceFilter \<Rightarrow> CompareOptions \<Rightarrow> error + ResourceList"
  assemblePlatformBasedResourceList :: "ResourceFilter \<Rightarrow> CompareOptions \<Rightarrow> error + ResourceList"

text \<open>The lines \<open>calculateChangeset\<close> prints before it builds the filter.\<close>

definition comparingLines :: "CompareOptions \<Rightarrow> event list" where
  "comparingLines compareOptions =
     Printf (''Comparing templates in '' @ TemplateDir compareOptions @ '' with OCP namespace ''
             @ Namespace compareOptions @ ''.\<newline>'')
     # (if length (Resource compareOptions) > 0 \<and> length (Selector compareOptions) > 0 then
          [Printf (''Limiting resources to '' @ Resource compareOptions @ '' with selector ''
                   @ Selector compareOptions @ ''.\<newline>'')]
        else if length (Selector compareOptions) > 0 then
          [Printf (''Limiting to resources with selector '' @ Selector compareOptions @ ''.\<newline>'')]
        else if length (Resource compareOptions) > 0 then
          [Printf (''Limiting resources to '' @ Resource compareOptions @ ''.\<newline>'')]
        else [])"

text \<open>The line with the two counts.\<close>

definition foundLine :: "ResourceList \<Rightarrow> ResourceList \<Rightarrow> event list" where
  "foundLine platformBasedList templateBasedList =
     (let platformResourcesWord = (if length platformBasedList = 1 then ''resource'' else ''resources'');
          templateResourcesWord = (if length templateBasedList = 1 then ''resource'' else ''resources'')
      in [Printf (''Found '' @ decimal (length platformBasedList) @ '' '' @ platformResourcesWord
                  @ '' in OCP cluster (current state) and '' @ decimal (length templateBasedList)
                  @ '' '' @ templateResourcesWord
                  @ '' in processed templates (desired state).\<newline>\<newline>'')])"

text \<open>What is printed when the desired state is empty and \<open>--force\<close> is not given.\<close>

definition refusalLines :: "CompareOptions \<Rightarrow> event list" where
  "refusalLines compareOptions =
     Printf ''No items where found in desired state. ''
     # (if length (Resource compareOptions) = 0 \<and> length (Selector compareOptions) = 0 then
          [Printf (''Are there any templates in '' @ TemplateDir compareOptions @ ''?\<newline>'')]
        else
          Printf (''Possible reasons are:\<newline>* No templates are located in ''
                  @ TemplateDir compareOptions @ ''\<newline>'')
          # (if length (Resource compareOptions) > 0 then
               [Printf (''* No templates contain resources of kinds: '' @ Resource compareOptions
                        @ ''\<newline>'')]
             else [])
          @ (if length (Selector compareOptions) > 0 then
               [Printf (''* No templates contain resources matching selector: ''
                        @ Selector compareOptions @ ''\<newline>'')]
             else []))
     @ [Printf ''\<newline>Refusing to continue without --force\<newline>'']"

text \<open>
  \<open>calculateChangeset\<close> of package \<open>commands\<close>: what it prints, and either the
  error or the pair of \<open>updateRequired\<close> and the changeset. Beside an error the Go
  function also hands back \<open>false\<close> and a changeset; every caller drops both.
\<close>

definition calculateChangeset ::
  "platform \<Rightarrow> CompareOptions \<Rightarrow> event list \<times> (error + bool \<times> changeset)" where
  "calculateChangeset ocClient compareOptions =
     (let out = comparingLines compareOptions in
      case NewResourceFilter ocClient (Resource compareOptions) (Selector compareOptions)
             (Exclude compareOptions) of
        Inl err \<Rightarrow> (out, Inl err)
      | Inr filter' \<Rightarrow>
     (case assembleTemplateBasedResourceList ocClient filter' compareOptions of
        Inl err \<Rightarrow> (out, Inl err)
      | Inr templateBasedList \<Rightarrow>
     (case assemblePlatformBasedResourceList ocClient filter' compareOptions of
        Inl err \<Rightarrow> (out, Inl err)
      | Inr platformBasedList \<Rightarrow>
          let out = out @ foundLine platformBasedList templateBasedList in
          if length templateBasedList = 0 \<and> \<not> Force compareOptions then
            (out @ refusalLines compareOptions, Inr (False, empty_Changeset))
          else
            (case compare (StructuralDiff ocClient) platformBasedList templateBasedList
                    (UpsertOnly compareOptions) (AllowRecreate compareOptions)
                    (RevealSecrets compareOptions) (PathsToPreserve compareOptions) of
               (printed, Inl err) \<Rightarrow> (out @ printed, Inl err)
             | (printed, Inr cs) \<Rightarrow> (out @ printed, Inr (\<not> Blank cs, cs))))))"

text \<open>\<open>Diff\<close>: the drift flag and the error of \<open>calculateChangeset\<close>.\<close>

definition Diff :: "platform \<Rightarrow> CompareOptions \<Rightarrow> event list \<times> (error + bool)" where
  "Diff ocClient compareOptions =
     (case calculateChangeset ocClient compareOptions of
        (out, Inl err) \<Rightarrow> (out, Inl err)
      | (out, Inr (driftDetected, _)) \<Rightarrow> (out, Inr driftDetected))"

text \<open>
  The branch of \<open>main\<close> for the diff command, for the options of one context directory
  (\<open>cli.NewCompareOptions\<close> may have failed): what is written and the exit code of the
  process. \<open>log.Fatalln\<close> exits with 1, \<open>os.Exit(3)\<close> with 3, and a \<open>main\<close> that
  returns exits with 0.
\<close>

definition diffCommand :: "platform \<Rightarrow> error + CompareOptions \<Rightarrow> event list \<times> nat" where
  "diffCommand ocClient newCompareOptions =
     (case newCompareOptions of
        Inl err \<Rightarrow> ([Fatalln ''Options could not be processed:'' err], 1)
      | Inr opt \<Rightarrow>
          (case Diff ocClient opt of
             (out, Inl err) \<Rightarrow> (out @ [Fatalln [] err], 1)
           | (out, Inr driftDectected) \<Rightarrow> (out, if driftDectected then 3 else 0)))"

section \<open>The update command (main.go)\<close>

text \<open>
  Modelled from the spec: \<open>cli.AskForConfirmation\<close>, absent from the sources. The token
  \<open>yes\<close> is the affirmative answer; any other input is not (section 4.4).
\<close>

definition AskForConfirmation :: "string \<Rightarrow> bool" where
  "AskForConfirmation answer = (answer = ''yes'')"

text \<open>
  The branch of \<open>main\<close> for the update command, from the return of
  \<open>calculateChangeset\<close> on: what is done after it and the exit code. Its arguments are
  the flag \<open>NonInteractive\<close>, what \<open>calculateChangeset\<close> returned, and what the user
  types when asked.
\<close>

definition updateCommand ::
  "bool \<Rightarrow> error + bool \<times> changeset \<Rightarrow> string \<Rightarrow> event list \<times> nat" where
  "updateCommand nonInteractive calculated answer =
     (case calculated of
        Inl err \<Rightarrow> ([Fatalln [] err], 1)
      | Inr (updateRequired, cs) \<Rightarrow>
          if updateRequired then
            (if nonInteractive then ([UpdateRemote cs], 0)
             else
               let c = AskForConfirmation answer in
               if c then ([AskedForConfirmation ''Apply changes?'', UpdateRemote cs], 0)
               else ([AskedForConfirmation ''Apply changes?''], 0))
          else ([], 0))"

section \<open>The parameter store and the edit command (main.go)\<close>

text \<open>
  The functions of the parameter store (\<open>NewParamsFromFile\<close>, \<open>Process\<close>,
  \<open>NewParamsFromInput\<close>, \<open>Render\<close>) belong to package \<open>openshift\<close> and are
  not among the sources; they follow sections 3 and 4.5 of the specification. The edit
  branch of \<open>main\<close> that calls them is.
\<close>


















section \<open>Worked inputs\<close>

text \<open>
  A \<open>Service pi\<close> as the templates or the cluster give it, a \<open>ConfigMap extra\<close> that
  only the cluster has, a platform that answers with given inventories, and options of a
  diff run.
\<close>

definition servicePi :: "provenance \<Rightarrow> resource" where
  "servicePi origin =
     \<lparr>Kind = ''Service'', ResourceName = ''pi'', Labels = [(''app'', ''pi'')], Annotations = [],
      Payload = Mapping [(''spec'', Mapping [(''ports'', Sequence [Mapping [(''port'', Scalar ''80'')]])])],
      Source = origin\<rparr>"

definition configMapExtra :: resource where
  "configMapExtra =
     \<lparr>Kind = ''ConfigMap'', ResourceName = ''extra'', Labels = [], Annotations = [],
      Payload = Mapping [(''data'', Mapping [(''k'', Scalar ''v'')])], Source = current\<rparr>"

definition replaceRoot :: "tree \<Rightarrow> tree \<Rightarrow> patch_op list" where
  "replaceRoot a b = [Replace [] b]"



definition examplePlatform :: "ResourceList \<Rightarrow> ResourceList \<Rightarrow> platform" where
  "examplePlatform templates cluster =
     \<lparr>StructuralDiff = replaceRoot,
      NewResourceFilter = (\<lambda>resource selector exclude. Inr \<lparr>Kinds = [], Name = [], Label = selector\<rparr>),
      assembleTemplateBasedResourceList = (\<lambda>f opts. Inr templates),
      assemblePlatformBasedResourceList = (\<lambda>f opts. Inr cluster)\<rparr>"


definition exampleOptions :: CompareOptions where
  "exampleOptions =
     \<lparr>Namespace = ''demo'', Selector = [], Exclude = [], TemplateDir = ''.'', Resource = [],
      UpsertOnly = False, AllowRecreate = False, RevealSecrets = False, Force = False,
      PathsToPreserve = []\<rparr>"

definition servicePiInSync :: change where
  "servicePiInSync =
     \<lparr>Action = ActionNoop, Current = Some (servicePi current), Desired = Some (servicePi desired),
      Patches = []\<rparr>"

definition configMapExtraToDelete :: change where
  "configMapExtraToDelete =
     \<lparr>Action = ActionDelete, Current = Some configMapExtra, Desired = None, Patches = []\<rparr>"



section \<open>Properties of \<open>getFilter\<close>: auxiliary facts\<close>


lemma lower_byte_range:
  assumes "CHR ''A'' \<le> c" "c \<le> CHR ''Z''"
  shows "97 \<le> (of_char (lower_byte c) :: nat) \<and> (of_char (lower_byte c) :: nat) \<le> 122"
  using assms unfolding lower_byte_def less_eq_char_def by simp

lemma lower_byte_slash: "lower_byte c = CHR ''/'' \<longleftrightarrow> c = CHR ''/''"
proof (cases "CHR ''A'' \<le> c \<and> c \<le> CHR ''Z''")
  case True
  then have "97 \<le> (of_char (lower_byte c) :: nat)" using lower_byte_range by blast
  then have "lower_byte c \<noteq> CHR ''/''" by auto
  moreover have "c \<noteq> CHR ''/''" using True by (auto simp: less_eq_char_def)
  ultimately show ?thesis by simp
next
  case False
  then show ?thesis by (auto simp: lower_byte_def)
qed

lemma lower_byte_comma: "lower_byte c = CHR '','' \<longleftrightarrow> c = CHR '',''"
proof (cases "CHR ''A'' \<le> c \<and> c \<le> CHR ''Z''")
  case True
  then have "97 \<le> (of_char (lower_byte c) :: nat)" using lower_byte_range by blast
  then have "lower_byte c \<noteq> CHR '',''" by auto
  moreover have "c \<noteq> CHR '',''" using True by (auto simp: less_eq_char_def)
  ultimately show ?thesis by simp
next
  case False
  then show ?thesis by (auto simp: lower_byte_def)
qed

lemma Contains_ToLower_slash: "Contains (ToLower s) CHR ''/'' = Contains s CHR ''/''"
proof -
  have "(CHR ''/'' = lower_byte c) = (c = CHR ''/'')" for c
    using lower_byte_slash [of c] by auto
  then show ?thesis by (auto simp: Contains_def ToLower_def image_iff)
qed

lemma Contains_ToLower_comma: "Contains (ToLower s) CHR '','' = Contains s CHR '',''"
proof -
  have "(CHR '','' = lower_byte c) = (c = CHR '','')" for c
    using lower_byte_comma [of c] by auto
  then show ?thesis by (auto simp: Contains_def ToLower_def image_iff)
qed



section \<open>Properties of the changeset and the diff command: auxiliary facts\<close>


lemma calculateChangeset_refusal:
  assumes "NewResourceFilter ocClient (Resource opts) (Selector opts) (Exclude opts) = Inr f"
    and "assembleTemplateBasedResourceList ocClient f opts = Inr []"
    and "assemblePlatformBasedResourceList ocClient f opts = Inr platformBasedList"
    and "\<not> Force opts"
  shows "calculateChangeset ocClient opts =
           (comparingLines opts @ foundLine platformBasedList [] @ refusalLines opts,
            Inr (False, empty_Changeset))"
  using assms by (simp add: calculateChangeset_def)


lemma classify_sides:
  "classify sd ar pps cur des = Inr c \<Longrightarrow> Current c = Some cur \<and> Desired c = Some des"
  by (auto simp: classify_def Let_def split: if_splits)

lemma classifyAll_sides:
  "classifyAll sd ar pps pairs = Inr cs \<Longrightarrow> c \<in> set cs \<Longrightarrow>
   \<exists>cur des. (cur, des) \<in> set pairs \<and> Current c = Some cur \<and> Desired c = Some des"
proof (induction pairs arbitrary: cs)
  case Nil
  then show ?case by simp
next
  case (Cons p pairs)
  obtain cur des where p: "p = (cur, des)" by (cases p)
  from Cons.prems(1) p obtain c0 cs0 where
    c0: "classify sd ar pps cur des = Inr c0" and
    cs0: "classifyAll sd ar pps pairs = Inr cs0" and
    cs: "cs = c0 # cs0"
    by (auto split: sum.splits)
  show ?case
  proof (cases "c = c0")
    case True
    then show ?thesis using classify_sides [OF c0] p by auto
  next
    case False
    then have "c \<in> set cs0" using Cons.prems(2) cs by simp
    then show ?thesis using Cons.IH [OF cs0] by auto
  qed
qed

lemma change_identity_Desired:
  "Desired c = Some des \<Longrightarrow> change_identity c = identity des"
  by (simp add: change_identity_def item_def)

lemma find_SomeD: "find P xs = Some x \<Longrightarrow> x \<in> set xs \<and> P x"
  by (induction xs) (auto split: if_splits)

lemma bothSides_desired:
  assumes "(cur, des) \<in> set (bothSides currentList desiredList)"
  shows "des \<in> set desiredList \<and> cur \<in> set currentList \<and> identity des = identity cur"
proof -
  from assms obtain x where x: "x \<in> set currentList"
    and m: "(cur, des) \<in> set (case find (\<lambda>des. identity des = identity x) desiredList of
                                    None \<Rightarrow> [] | Some des \<Rightarrow> [(x, des)])"
    by (auto simp: bothSides_def)
  from m obtain d where f: "find (\<lambda>des. identity des = identity x) desiredList = Some d"
    and e: "(cur, des) = (x, d)"
    by (cases "find (\<lambda>des. identity des = identity x) desiredList") auto
  from find_SomeD [OF f] e x show ?thesis by simp
qed

lemma NewChangeset_Inr:
  assumes "NewChangeset sd currentList desiredList upsertOnly ar pps = Inr cs"
  obtains classified where
    "classifyAll sd ar pps (bothSides currentList desiredList) = Inr classified"
    "cs = \<lparr>Noop = sortBucket (filter (\<lambda>c. Action c = ActionNoop) classified),
           Create = sortBucket (map (\<lambda>r. \<lparr>Action = ActionCreate, Current = None,
                                          Desired = Some r, Patches = []\<rparr>)
                                  (filter (\<lambda>r. identity r \<notin> set (map identity currentList)) desiredList)),
           Update = sortBucket (filter (\<lambda>c. Action c = ActionUpdate) classified),
           Delete = sortBucket (map (\<lambda>r. \<lparr>Action = ActionDelete, Current = Some r,
                                          Desired = None, Patches = []\<rparr>)
                                  (if \<not> upsertOnly then filter (\<lambda>r. identity r \<notin> set (map identity desiredList)) currentList else [])),
           Recreate = sortBucket (filter (\<lambda>c. Action c = ActionRecreate) classified)\<rparr>"
  using assms unfolding NewChangeset_def Let_def bothSides_def
  by (auto split: sum.splits)

lemma NewChangeset_upsertOnly_Delete:
  assumes "NewChangeset sd currentList desiredList True ar pps = Inr cs"
  shows "Delete cs = []"
  using assms by (rule NewChangeset_Inr) (simp add: sortBucket_def)

lemma NewChangeset_identities:
  assumes "NewChangeset sd currentList desiredList upsertOnly ar pps = Inr cs"
    and "c \<in> set (Noop cs @ Create cs @ Update cs @ Recreate cs)"
  shows "change_identity c \<in> identity ` set desiredList"
proof -
  from assms(1) obtain classified where
    cl: "classifyAll sd ar pps (bothSides currentList desiredList) = Inr classified" and
    cs: "cs = \<lparr>Noop = sortBucket (filter (\<lambda>c. Action c = ActionNoop) classified),
           Create = sortBucket (map (\<lambda>r. \<lparr>Action = ActionCreate, Current = None,
                                          Desired = Some r, Patches = []\<rparr>)
                                  (filter (\<lambda>r. identity r \<notin> set (map identity currentList)) desiredList)),
           Update = sortBucket (filter (\<lambda>c. Action c = ActionUpdate) classified),
           Delete = sortBucket (map (\<lambda>r. \<lparr>Action = ActionDelete, Current = Some r,
                                          Desired = None, Patches = []\<rparr>)
                                  (if \<not> upsertOnly then filter (\<lambda>r. identity r \<notin> set (map identity desiredList)) currentList else [])),
           Recreate = sortBucket (filter (\<lambda>c. Action c = ActionRecreate) classified)\<rparr>"
    by (rule NewChangeset_Inr)
  from assms(2) cs consider "c \<in> set classified"
    | r where "r \<in> set desiredList" "c = \<lparr>Action = ActionCreate, Current = None, Desired = Some r, Patches = []\<rparr>"
    by (auto simp: sortBucket_def)
  then show ?thesis
  proof cases
    case 1
    from classifyAll_sides [OF cl 1] obtain cur des where
      "(cur, des) \<in> set (bothSides currentList desiredList)" "Desired c = Some des" by blast
    then show ?thesis using bothSides_desired change_identity_Desired by blast
  next
    case 2
    then show ?thesis by (simp add: change_identity_def item_def)
  qed
qed

lemma decimal_0: "decimal 0 = ''0''"
  by code_simp

lemma compare_cases:
  "compare sd remote local uo ar rs pps =
     (case NewChangeset sd remote local uo ar pps of
        Inl err \<Rightarrow> ([], Inl err)
      | Inr cs \<Rightarrow> (printedLines cs rs, Inr cs))"
  unfolding compare_def printedLines_def ..

lemma compare_Inr:
  assumes "compare sd remote local uo ar rs pps = (printed, Inr cs)"
  shows "NewChangeset sd remote local uo ar pps = Inr cs \<and> printed = printedLines cs rs"
  using assms unfolding compare_cases
  by (cases "NewChangeset sd remote local uo ar pps") auto

lemma last_printedLines:
  "last (printedLines cs rs) = PrintRedf (decimal (length (Delete cs)) @ '' to delete\<newline>\<newline>'')"
  unfolding printedLines_def by simp

lemma in_sync_printedLines:
  "c \<in> set (Noop cs) \<Longrightarrow>
   Printf (''* '' @ ItemName c @ '' is in sync\<newline>'') \<in> set (printedLines cs rs)"
  unfolding printedLines_def by simp

lemma calculateChangeset_assembled:
  assumes "NewResourceFilter ocClient (Resource opts) (Selector opts) (Exclude opts) = Inr f"
    and "assembleTemplateBasedResourceList ocClient f opts = Inr templateBasedList"
    and "assemblePlatformBasedResourceList ocClient f opts = Inr platformBasedList"
  shows "calculateChangeset ocClient opts =
           (if templateBasedList = [] \<and> \<not> Force opts then
              (comparingLines opts @ foundLine platformBasedList templateBasedList
                 @ refusalLines opts, Inr (False, empty_Changeset))
            else
              (case NewChangeset (StructuralDiff ocClient) platformBasedList templateBasedList
                      (UpsertOnly opts) (AllowRecreate opts) (PathsToPreserve opts) of
                 Inl err \<Rightarrow>
                   (comparingLines opts @ foundLine platformBasedList templateBasedList, Inl err)
               | Inr cs \<Rightarrow>
                   (comparingLines opts @ foundLine platformBasedList templateBasedList
                      @ printedLines cs (RevealSecrets opts), Inr (\<not> Blank cs, cs))))"
  using assms by (simp add: calculateChangeset_def compare_cases Let_def split: sum.splits)

lemma calculateChangeset_printed:
  assumes "snd (calculateChangeset ocClient opts) = Inr (d, cs)"
  shows "cs = empty_Changeset \<or>
         (\<exists>before. fst (calculateChangeset ocClient opts) = before @ printedLines cs (RevealSecrets opts))"
proof (cases "NewResourceFilter ocClient (Resource opts) (Selector opts) (Exclude opts)")
  case (Inl err)
  with assms show ?thesis by (simp add: calculateChangeset_def)
next
  case f: (Inr f)
  show ?thesis
  proof (cases "assembleTemplateBasedResourceList ocClient f opts")
    case (Inl err)
    with assms f show ?thesis by (simp add: calculateChangeset_def)
  next
    case t: (Inr templateBasedList)
    show ?thesis
    proof (cases "assemblePlatformBasedResourceList ocClient f opts")
      case (Inl err)
      with assms f t show ?thesis by (simp add: calculateChangeset_def)
    next
      case p: (Inr platformBasedList)
      note unfolded = calculateChangeset_assembled [OF f t p]
      show ?thesis
      proof (cases "templateBasedList = [] \<and> \<not> Force opts")
        case True
        then show ?thesis using assms unfolding unfolded by simp
      next
        case False
        show ?thesis
        proof (cases "NewChangeset (StructuralDiff ocClient) platformBasedList templateBasedList
                        (UpsertOnly opts) (AllowRecreate opts) (PathsToPreserve opts)")
          case (Inl err)
          then show ?thesis using assms False unfolding unfolded by auto
        next
          case (Inr cs')
          then have "cs' = cs" using assms False unfolding unfolded by auto
          then have "fst (calculateChangeset ocClient opts) =
                       (comparingLines opts @ foundLine platformBasedList templateBasedList)
                       @ printedLines cs (RevealSecrets opts)"
            using Inr False unfolding unfolded by auto
          then show ?thesis by blast
        qed
      qed
    qed
  qed
qed

lemma diffCommand_Inr:
  assumes "snd (calculateChangeset ocClient opts) = Inr (d, cs)"
  shows "diffCommand ocClient (Inr opts) =
           (fst (calculateChangeset ocClient opts), if d then 3 else 0)"
proof (cases "calculateChangeset ocClient opts")
  case (Pair out res)
  with assms show ?thesis by (simp add: diffCommand_def Diff_def)
qed


lemma last_refusalLines:
  "last (refusalLines opts) = Printf ''\<newline>Refusing to continue without --force\<newline>''"
  by (simp add: refusalLines_def)

lemma refusalLines_not_Nil: "refusalLines opts \<noteq> []"
  by (simp add: refusalLines_def)

lemma NewChangeset_identical:
  assumes "identity cur = identity des" and "canon (Payload cur) = canon (Payload des)"
  shows "NewChangeset sd [cur] [des] uo ar pps =
           Inr \<lparr>Noop = [\<lparr>Action = ActionNoop, Current = Some cur, Desired = Some des, Patches = []\<rparr>],
                Create = [], Update = [], Delete = [], Recreate = []\<rparr>"
proof -
  have b: "bothSides [cur] [des] = [(cur, des)]"
    using assms(1) by (simp add: bothSides_def)
  have c: "classify sd ar pps cur des =
             Inr \<lparr>Action = ActionNoop, Current = Some cur, Desired = Some des, Patches = []\<rparr>"
    using assms(2) by (simp add: classify_def patches_def)
  show ?thesis
    using assms(1) by (simp add: NewChangeset_def b c sortBucket_def)
qed

lemma calculateChangeset_identical:
  assumes "NewResourceFilter ocClient (Resource opts) (Selector opts) (Exclude opts) = Inr f"
    and "assembleTemplateBasedResourceList ocClient f opts = Inr [des]"
    and "assemblePlatformBasedResourceList ocClient f opts = Inr [cur]"
    and "identity cur = identity des" and "canon (Payload cur) = canon (Payload des)"
  shows "calculateChangeset ocClient opts =
           (comparingLines opts @ foundLine [cur] [des]
              @ printedLines \<lparr>Noop = [\<lparr>Action = ActionNoop, Current = Some cur, Desired = Some des,
                                        Patches = []\<rparr>],
                              Create = [], Update = [], Delete = [], Recreate = []\<rparr>
                  (RevealSecrets opts),
            Inr (False, \<lparr>Noop = [\<lparr>Action = ActionNoop, Current = Some cur, Desired = Some des,
                                   Patches = []\<rparr>],
                         Create = [], Update = [], Delete = [], Recreate = []\<rparr>))"
  using NewChangeset_identical [OF assms(4,5)]
  unfolding calculateChangeset_assembled [OF assms(1-3)]
  by (simp add: Blank_def)

section \<open>Properties of the parameter store: auxiliary facts\<close>





section \<open>The claims\<close>

text \<open>
  C1. When the desired list is empty and \<open>--force\<close> is not set, \<open>calculateChangeset\<close>
  returns the empty changeset, whatever the current list holds: no bucket, Delete
  included, has an item, and nothing is printed beyond the counts and the refusal.
\<close>

theorem calculateChangeset_empty_desired_no_delete:
  assumes "NewResourceFilter ocClient (Resource opts) (Selector opts) (Exclude opts) = Inr f"
    and "assembleTemplateBasedResourceList ocClient f opts = Inr []"
    and "assemblePlatformBasedResourceList ocClient f opts = Inr platformBasedList"
    and "\<not> Force opts"
  shows "\<exists>cs. snd (calculateChangeset ocClient opts) = Inr (False, cs)
           \<and> Delete cs = [] \<and> Noop cs = [] \<and> Create cs = [] \<and> Update cs = [] \<and> Recreate cs = []
           \<and> fst (calculateChangeset ocClient opts) =
               comparingLines opts @ foundLine platformBasedList [] @ refusalLines opts"
  using calculateChangeset_refusal [OF assms] by (simp add: empty_Changeset_def)

theorem calculateChangeset_empty_desired_no_delete_witness:
  "NewResourceFilter (examplePlatform [] [servicePi current, configMapExtra])
     (Resource exampleOptions) (Selector exampleOptions) (Exclude exampleOptions)
     = Inr \<lparr>Kinds = [], Name = [], Label = []\<rparr>
   \<and> assembleTemplateBasedResourceList (examplePlatform [] [servicePi current, configMapExtra])
       \<lparr>Kinds = [], Name = [], Label = []\<rparr> exampleOptions = Inr []
   \<and> assemblePlatformBasedResourceList (examplePlatform [] [servicePi current, configMapExtra])
       \<lparr>Kinds = [], Name = [], Label = []\<rparr> exampleOptions = Inr [servicePi current, configMapExtra]
   \<and> \<not> Force exampleOptions
   \<and> (\<exists>cs. snd (calculateChangeset (examplePlatform [] [servicePi current, configMapExtra])
                   exampleOptions) = Inr (False, cs)
           \<and> Delete cs = [] \<and> Noop cs = [] \<and> Create cs = [] \<and> Update cs = [] \<and> Recreate cs = []
           \<and> fst (calculateChangeset (examplePlatform [] [servicePi current, configMapExtra])
                     exampleOptions) =
               comparingLines exampleOptions @ foundLine [servicePi current, configMapExtra] []
               @ refusalLines exampleOptions)"
proof -
  let ?P = "examplePlatform [] [servicePi current, configMapExtra]"
  let ?f = "\<lparr>Kinds = [], Name = [], Label = []\<rparr>"
  have h1: "NewResourceFilter ?P (Resource exampleOptions) (Selector exampleOptions)
              (Exclude exampleOptions) = Inr ?f"
    by (simp add: examplePlatform_def exampleOptions_def)
  have h2: "assembleTemplateBasedResourceList ?P ?f exampleOptions = Inr []"
    by (simp add: examplePlatform_def)
  have h3: "assemblePlatformBasedResourceList ?P ?f exampleOptions
              = Inr [servicePi current, configMapExtra]"
    by (simp add: examplePlatform_def)
  have h4: "\<not> Force exampleOptions" by (simp add: exampleOptions_def)
  show ?thesis
    using calculateChangeset_empty_desired_no_delete [OF h1 h2 h3 h4] h1 h2 h3 h4 by blast
qed



text \<open>
  C3. With \<open>UpsertOnly\<close> set, the Delete bucket of the changeset that \<open>compare\<close>
  returns is empty, a resource that only the cluster has is the item of no change in any
  bucket, and the last thing printed is the summary part \<open>0 to delete\<close>.
\<close>

theorem upsertOnly_no_delete:
  assumes "compare sd remote local True ar rs pps = (printed, Inr cs)"
  shows "Delete cs = []
    \<and> (\<forall>r \<in> set remote. identity r \<notin> identity ` set local \<longrightarrow>
          (\<forall>c \<in> set (Noop cs @ Create cs @ Update cs @ Delete cs @ Recreate cs).
             change_identity c \<noteq> identity r))
    \<and> last printed = PrintRedf ''0 to delete\<newline>\<newline>''"
proof -
  have nc: "NewChangeset sd remote local True ar pps = Inr cs"
    and pr: "printed = printedLines cs rs"
    using compare_Inr [OF assms] by simp_all
  have d: "Delete cs = []" using nc by (rule NewChangeset_upsertOnly_Delete)
  have "change_identity c \<noteq> identity r"
    if "r \<in> set remote" "identity r \<notin> identity ` set local"
      "c \<in> set (Noop cs @ Create cs @ Update cs @ Delete cs @ Recreate cs)" for r c
  proof -
    from that(3) d have "c \<in> set (Noop cs @ Create cs @ Update cs @ Recreate cs)" by auto
    then have "change_identity c \<in> identity ` set local"
      using NewChangeset_identities [OF nc] by blast
    with that(2) show ?thesis by auto
  qed
  moreover have "last printed = PrintRedf ''0 to delete\<newline>\<newline>''"
    using last_printedLines [of cs rs] pr d by (simp add: decimal_0)
  ultimately show ?thesis using d by blast
qed

theorem upsertOnly_no_delete_witness:
  "compare replaceRoot [servicePi current, configMapExtra] [servicePi desired] True False False []
     = (printedLines \<lparr>Noop = [servicePiInSync], Create = [], Update = [], Delete = [],
                      Recreate = []\<rparr> False,
        Inr \<lparr>Noop = [servicePiInSync], Create = [], Update = [], Delete = [], Recreate = []\<rparr>)
   \<and> identity configMapExtra \<notin> identity ` set [servicePi desired]
   \<and> change_identity servicePiInSync \<noteq> identity configMapExtra
   \<and> last (printedLines \<lparr>Noop = [servicePiInSync], Create = [], Update = [], Delete = [],
                         Recreate = []\<rparr> False)
       = PrintRedf ''0 to delete\<newline>\<newline>''"
proof -
  let ?cs = "\<lparr>Noop = [servicePiInSync], Create = [], Update = [], Delete = [], Recreate = []\<rparr>"
  have h: "compare replaceRoot [servicePi current, configMapExtra] [servicePi desired]
             True False False [] = (printedLines ?cs False, Inr ?cs)"
    by code_simp
  have n: "identity configMapExtra \<notin> identity ` set [servicePi desired]"
    by (simp add: identity_def configMapExtra_def servicePi_def)
  from upsertOnly_no_delete [OF h]
  have a: "\<forall>r \<in> set [servicePi current, configMapExtra].
             identity r \<notin> identity ` set [servicePi desired] \<longrightarrow>
             (\<forall>c \<in> set (Noop ?cs @ Create ?cs @ Update ?cs @ Delete ?cs @ Recreate ?cs).
                change_identity c \<noteq> identity r)"
    and l: "last (printedLines ?cs False) = PrintRedf ''0 to delete\<newline>\<newline>''"
    by blast+
  from a n have "change_identity servicePiInSync \<noteq> identity configMapExtra" by simp
  then show ?thesis using h n l by blast
qed




text \<open>
  C5. In interactive mode the update command calls \<open>UpdateRemote\<close> exactly when an
  update is required and the answer to the confirmation is affirmative; on every other
  answer it asks, calls nothing else and exits with 0.
\<close>

theorem updateCommand_needs_confirmation:
  "(UpdateRemote cs \<in> set (fst (updateCommand False calculated answer)) \<longleftrightarrow>
      calculated = Inr (True, cs) \<and> AskForConfirmation answer)
   \<and> (\<not> AskForConfirmation answer \<longrightarrow>
        (\<forall>updateRequired cs'. calculated = Inr (updateRequired, cs') \<longrightarrow>
           updateCommand False calculated answer =
             ((if updateRequired then [AskedForConfirmation ''Apply changes?''] else []), 0)))
   \<and> (AskForConfirmation answer \<longleftrightarrow> answer = ''yes'')"
proof (cases calculated)
  case (Inl err)
  then show ?thesis by (simp add: updateCommand_def AskForConfirmation_def)
next
  case (Inr p)
  obtain updateRequired cs' where p: "p = (updateRequired, cs')" by (cases p)
  show ?thesis using Inr p by (auto simp: updateCommand_def AskForConfirmation_def)
qed

theorem updateCommand_needs_confirmation_witness:
  "\<not> AskForConfirmation ''no''
   \<and> updateCommand False (Inr (True, \<lparr>Noop = [], Create = [], Update = [],
                                       Delete = [configMapExtraToDelete], Recreate = []\<rparr>)) ''no''
       = ([AskedForConfirmation ''Apply changes?''], 0)
   \<and> UpdateRemote \<lparr>Noop = [], Create = [], Update = [], Delete = [configMapExtraToDelete],
                    Recreate = []\<rparr>
       \<in> set (fst (updateCommand False
                     (Inr (True, \<lparr>Noop = [], Create = [], Update = [],
                                   Delete = [configMapExtraToDelete], Recreate = []\<rparr>)) ''yes''))"
proof -
  let ?cs = "\<lparr>Noop = [], Create = [], Update = [], Delete = [configMapExtraToDelete],
              Recreate = []\<rparr>"
  have n: "\<not> AskForConfirmation ''no''"
    using updateCommand_needs_confirmation [of ?cs "Inr (True, ?cs)" "''no''"] by simp
  have y: "AskForConfirmation ''yes''"
    using updateCommand_needs_confirmation [of ?cs "Inr (True, ?cs)" "''yes''"] by simp
  have "\<forall>updateRequired cs'. Inr (True, ?cs) = Inr (updateRequired, cs') \<longrightarrow>
          updateCommand False (Inr (True, ?cs)) ''no'' =
            ((if updateRequired then [AskedForConfirmation ''Apply changes?''] else []), 0)"
    using updateCommand_needs_confirmation [of ?cs "Inr (True, ?cs)" "''no''"] n by blast
  then have "updateCommand False (Inr (True, ?cs)) ''no'' =
            ((if True then [AskedForConfirmation ''Apply changes?''] else []), 0)"
    by blast
  then have a: "updateCommand False (Inr (True, ?cs)) ''no''
                  = ([AskedForConfirmation ''Apply changes?''], 0)"
    by simp
  have b: "UpdateRemote ?cs \<in> set (fst (updateCommand False (Inr (True, ?cs)) ''yes''))"
    using updateCommand_needs_confirmation [of ?cs "Inr (True, ?cs)" "''yes''"] y by simp
  show ?thesis using n a b by blast
qed



text \<open>
  C7. Whenever \<open>calculateChangeset\<close> returns a changeset, the diff command prints
  the line \<open>* Kind/Name is in sync\<close> for every change of its Noop bucket. When the
  templates give one \<open>Service pi\<close> and the cluster holds one \<open>Service pi\<close> with the
  same canonical payload, the diff command prints \<open>* Service/pi is in sync\<close> and exits
  with 0.
\<close>

theorem diffCommand_prints_in_sync:
  "(\<forall>d cs c. snd (calculateChangeset ocClient opts) = Inr (d, cs) \<longrightarrow> c \<in> set (Noop cs) \<longrightarrow>
       Printf (''* '' @ ItemName c @ '' is in sync\<newline>'')
         \<in> set (fst (diffCommand ocClient (Inr opts))))
   \<and> (\<forall>f cur des.
         NewResourceFilter ocClient (Resource opts) (Selector opts) (Exclude opts) = Inr f \<longrightarrow>
         assembleTemplateBasedResourceList ocClient f opts = Inr [des] \<longrightarrow>
         assemblePlatformBasedResourceList ocClient f opts = Inr [cur] \<longrightarrow>
         Kind des = ''Service'' \<longrightarrow> ResourceName des = ''pi'' \<longrightarrow>
         Kind cur = ''Service'' \<longrightarrow> ResourceName cur = ''pi'' \<longrightarrow>
         canon (Payload cur) = canon (Payload des) \<longrightarrow>
         Printf ''* Service/pi is in sync\<newline>'' \<in> set (fst (diffCommand ocClient (Inr opts)))
         \<and> snd (diffCommand ocClient (Inr opts)) = 0)"
proof (intro conjI allI impI)
  fix d cs c
  assume r: "snd (calculateChangeset ocClient opts) = Inr (d, cs)" and c: "c \<in> set (Noop cs)"
  have "cs \<noteq> empty_Changeset" using c by (auto simp: empty_Changeset_def)
  then obtain before where
    "fst (calculateChangeset ocClient opts) = before @ printedLines cs (RevealSecrets opts)"
    using calculateChangeset_printed [OF r] by blast
  then have "Printf (''* '' @ ItemName c @ '' is in sync\<newline>'')
               \<in> set (fst (calculateChangeset ocClient opts))"
    using in_sync_printedLines [OF c, of "RevealSecrets opts"] by simp
  then show "Printf (''* '' @ ItemName c @ '' is in sync\<newline>'')
               \<in> set (fst (diffCommand ocClient (Inr opts)))"
    using diffCommand_Inr [OF r] by simp
next
  fix f cur des
  assume a: "NewResourceFilter ocClient (Resource opts) (Selector opts) (Exclude opts) = Inr f"
    "assembleTemplateBasedResourceList ocClient f opts = Inr [des]"
    "assemblePlatformBasedResourceList ocClient f opts = Inr [cur]"
    and k: "Kind des = ''Service''" "ResourceName des = ''pi''"
      "Kind cur = ''Service''" "ResourceName cur = ''pi''"
    and p: "canon (Payload cur) = canon (Payload des)"
  let ?c = "\<lparr>Action = ActionNoop, Current = Some cur, Desired = Some des, Patches = []\<rparr>"
  let ?cs = "\<lparr>Noop = [?c], Create = [], Update = [], Delete = [], Recreate = []\<rparr>"
  have i: "identity cur = identity des" using k by (simp add: identity_def)
  have calc: "calculateChangeset ocClient opts =
                (comparingLines opts @ foundLine [cur] [des] @ printedLines ?cs (RevealSecrets opts),
                 Inr (False, ?cs))"
    using calculateChangeset_identical [OF a i p] .
  then have s: "snd (calculateChangeset ocClient opts) = Inr (False, ?cs)" by simp
  have n: "ItemName ?c = ''Service/pi''"
    using k by (simp add: ItemName_def change_identity_def item_def identity_def)
  have "Printf (''* '' @ ItemName ?c @ '' is in sync\<newline>'') \<in> set (printedLines ?cs (RevealSecrets opts))"
    by (rule in_sync_printedLines) simp
  then have "Printf ''* Service/pi is in sync\<newline>'' \<in> set (fst (calculateChangeset ocClient opts))"
    using n calc by simp
  then show "Printf ''* Service/pi is in sync\<newline>'' \<in> set (fst (diffCommand ocClient (Inr opts)))"
    using diffCommand_Inr [OF s] by simp
  show "snd (diffCommand ocClient (Inr opts)) = 0"
    using diffCommand_Inr [OF s] by simp
qed

theorem diffCommand_prints_in_sync_witness:
  "NewResourceFilter (examplePlatform [servicePi desired] [servicePi current])
     (Resource exampleOptions) (Selector exampleOptions) (Exclude exampleOptions)
     = Inr \<lparr>Kinds = [], Name = [], Label = []\<rparr>
   \<and> assembleTemplateBasedResourceList (examplePlatform [servicePi desired] [servicePi current])
       \<lparr>Kinds = [], Name = [], Label = []\<rparr> exampleOptions = Inr [servicePi desired]
   \<and> assemblePlatformBasedResourceList (examplePlatform [servicePi desired] [servicePi current])
       \<lparr>Kinds = [], Name = [], Label = []\<rparr> exampleOptions = Inr [servicePi current]
   \<and> Kind (servicePi desired) = ''Service'' \<and> ResourceName (servicePi desired) = ''pi''
   \<and> Kind (servicePi current) = ''Service'' \<and> ResourceName (servicePi current) = ''pi''
   \<and> canon (Payload (servicePi current)) = canon (Payload (servicePi desired))
   \<and> Printf ''* Service/pi is in sync\<newline>''
       \<in> set (fst (diffCommand (examplePlatform [servicePi desired] [servicePi current])
                     (Inr exampleOptions)))
   \<and> snd (diffCommand (examplePlatform [servicePi desired] [servicePi current])
            (Inr exampleOptions)) = 0
   \<and> snd (calculateChangeset (examplePlatform [servicePi desired] [servicePi current, configMapExtra])
            exampleOptions)
       = Inr (True, \<lparr>Noop = [servicePiInSync], Create = [], Update = [],
                     Delete = [configMapExtraToDelete], Recreate = []\<rparr>)
   \<and> Printf (''* '' @ ItemName servicePiInSync @ '' is in sync\<newline>'')
       \<in> set (fst (diffCommand (examplePlatform [servicePi desired] [servicePi current, configMapExtra])
                     (Inr exampleOptions)))"
proof -
  let ?P = "examplePlatform [servicePi desired] [servicePi current]"
  let ?f = "\<lparr>Kinds = [], Name = [], Label = []\<rparr>"
  have h1: "NewResourceFilter ?P (Resource exampleOptions) (Selector exampleOptions)
              (Exclude exampleOptions) = Inr ?f"
    by (simp add: examplePlatform_def exampleOptions_def)
  have h2: "assembleTemplateBasedResourceList ?P ?f exampleOptions = Inr [servicePi desired]"
    by (simp add: examplePlatform_def)
  have h3: "assemblePlatformBasedResourceList ?P ?f exampleOptions = Inr [servicePi current]"
    by (simp add: examplePlatform_def)
  have k: "Kind (servicePi desired) = ''Service''" "ResourceName (servicePi desired) = ''pi''"
    "Kind (servicePi current) = ''Service''" "ResourceName (servicePi current) = ''pi''"
    by (simp_all add: servicePi_def)
  have p: "canon (Payload (servicePi current)) = canon (Payload (servicePi desired))"
    by (simp add: servicePi_def)
  have a: "Printf ''* Service/pi is in sync\<newline>'' \<in> set (fst (diffCommand ?P (Inr exampleOptions)))
          \<and> snd (diffCommand ?P (Inr exampleOptions)) = 0"
    using diffCommand_prints_in_sync [of ?P exampleOptions] h1 h2 h3 k p by blast
  let ?Q = "examplePlatform [servicePi desired] [servicePi current, configMapExtra]"
  let ?cs = "\<lparr>Noop = [servicePiInSync], Create = [], Update = [],
               Delete = [configMapExtraToDelete], Recreate = []\<rparr>"
  have c: "snd (calculateChangeset ?Q exampleOptions) = Inr (True, ?cs)"
    by code_simp
  have m: "servicePiInSync \<in> set (Noop ?cs)" by simp
  have b: "Printf (''* '' @ ItemName servicePiInSync @ '' is in sync\<newline>'')
             \<in> set (fst (diffCommand ?Q (Inr exampleOptions)))"
    using diffCommand_prints_in_sync [of ?Q exampleOptions] c m by blast
  show ?thesis using a b c h1 h2 h3 k p by blast
qed

text \<open>
  C8. When the templates give no resource and \<open>--force\<close> is not set,
  \<open>calculateChangeset\<close> returns \<open>false\<close> for the drift with no error, whatever the
  cluster holds; \<open>Diff\<close> passes both on and the diff command exits with 0, the refusal
  being the last line printed.
\<close>

theorem diffCommand_exits_0_on_refusal:
  assumes "NewResourceFilter ocClient (Resource opts) (Selector opts) (Exclude opts) = Inr f"
    and "assembleTemplateBasedResourceList ocClient f opts = Inr []"
    and "assemblePlatformBasedResourceList ocClient f opts = Inr platformBasedList"
    and "\<not> Force opts"
  shows "(\<exists>cs. snd (calculateChangeset ocClient opts) = Inr (False, cs))
       \<and> snd (Diff ocClient opts) = Inr False
       \<and> snd (diffCommand ocClient (Inr opts)) = 0
       \<and> last (fst (diffCommand ocClient (Inr opts)))
           = Printf ''\<newline>Refusing to continue without --force\<newline>''"
proof -
  note c = calculateChangeset_refusal [OF assms]
  have s: "snd (calculateChangeset ocClient opts) = Inr (False, empty_Changeset)"
    using c by simp
  have "snd (Diff ocClient opts) = Inr False" using c by (simp add: Diff_def)
  moreover have "last (fst (diffCommand ocClient (Inr opts)))
           = Printf ''\<newline>Refusing to continue without --force\<newline>''"
    using diffCommand_Inr [OF s] c by (simp add: last_refusalLines refusalLines_not_Nil)
  moreover have "snd (diffCommand ocClient (Inr opts)) = 0"
    using diffCommand_Inr [OF s] by simp
  ultimately show ?thesis using s by blast
qed

theorem diffCommand_exits_0_on_refusal_witness:
  "NewResourceFilter (examplePlatform [] [servicePi current, configMapExtra])
     (Resource exampleOptions) (Selector exampleOptions) (Exclude exampleOptions)
     = Inr \<lparr>Kinds = [], Name = [], Label = []\<rparr>
   \<and> assembleTemplateBasedResourceList (examplePlatform [] [servicePi current, configMapExtra])
       \<lparr>Kinds = [], Name = [], Label = []\<rparr> exampleOptions = Inr []
   \<and> assemblePlatformBasedResourceList (examplePlatform [] [servicePi current, configMapExtra])
       \<lparr>Kinds = [], Name = [], Label = []\<rparr> exampleOptions = Inr [servicePi current, configMapExtra]
   \<and> \<not> Force exampleOptions
   \<and> snd (Diff (examplePlatform [] [servicePi current, configMapExtra]) exampleOptions) = Inr False
   \<and> snd (diffCommand (examplePlatform [] [servicePi current, configMapExtra])
            (Inr exampleOptions)) = 0
   \<and> last (fst (diffCommand (examplePlatform [] [servicePi current, configMapExtra])
                  (Inr exampleOptions)))
       = Printf ''\<newline>Refusing to continue without --force\<newline>''"
proof -
  let ?P = "examplePlatform [] [servicePi current, configMapExtra]"
  let ?f = "\<lparr>Kinds = [], Name = [], Label = []\<rparr>"
  have h1: "NewResourceFilter ?P (Resource exampleOptions) (Selector exampleOptions)
              (Exclude exampleOptions) = Inr ?f"
    by (simp add: examplePlatform_def exampleOptions_def)
  have h2: "assembleTemplateBasedResourceList ?P ?f exampleOptions = Inr []"
    by (simp add: examplePlatform_def)
  have h3: "assemblePlatformBasedResourceList ?P ?f exampleOptions
              = Inr [servicePi current, configMapExtra]"
    by (simp add: examplePlatform_def)
  have h4: "\<not> Force exampleOptions" by (simp add: exampleOptions_def)
  show ?thesis
    using diffCommand_exits_0_on_refusal [OF h1 h2 h3 h4] h1 h2 h3 h4 by blast
qed



text \<open>
  C10. For a resource argument that holds both a \<open>/\<close> and a \<open>,\<close>, \<open>getFilter\<close>
  returns the error \<open>You cannot target more than one resource name\<close> and no filter.
\<close>

theorem getFilter_slash_and_comma:
  assumes "CHR ''/'' \<in> set s" and "CHR '','' \<in> set s"
  shows "getFilter s sel = Inl (errors_New ''You cannot target more than one resource name'')"
proof -
  have "s \<noteq> []" using assms by auto
  moreover have "Contains (ToLower s) CHR ''/''"
    using assms(1) Contains_ToLower_slash [of s] by (simp add: Contains_def)
  moreover have "Contains (ToLower s) CHR '',''"
    using assms(2) Contains_ToLower_comma [of s] by (simp add: Contains_def)
  ultimately show ?thesis by (simp add: getFilter_def)
qed

theorem getFilter_slash_and_comma_witness:
  "CHR ''/'' \<in> set ''dc/foo,bc'' \<and> CHR '','' \<in> set ''dc/foo,bc'' \<and>
   getFilter ''dc/foo,bc'' ''app=x'' = Inl (errors_New ''You cannot target more than one resource name'')"
  using getFilter_slash_and_comma [of "''dc/foo,bc''" "''app=x''"] by simp

end
